theory Spec2Isabelle
  imports Main "HOL-Library.Sublist"
begin

section \<open>Python strings\<close>

text \<open>
  A Python \<open>str\<close> is a sequence of Unicode code points, so it is modelled as a list of
  code points. \<open>ascii\<close> turns an ASCII literal of the source into that representation.
\<close>

type_synonym pystr = "nat list"

definition ascii :: "string \<Rightarrow> pystr" where
  "ascii s = map of_char s"

text \<open>\<open>s.endswith(suf)\<close>: the last \<open>len(suf)\<close> code points of \<open>s\<close> are \<open>suf\<close>.\<close>

definition endswith :: "pystr \<Rightarrow> pystr \<Rightarrow> bool" where
  "endswith s suf = (length suf \<le> length s \<and> drop (length s - length suf) s = suf)"

text \<open>
  \<open>x or d\<close> where \<open>x\<close> is \<open>None\<close> or a \<open>str\<close>: \<open>None\<close> and the empty string are falsy.
\<close>

definition py_or :: "pystr option \<Rightarrow> pystr \<Rightarrow> pystr" where
  "py_or x d = (case x of None \<Rightarrow> d | Some v \<Rightarrow> if v = [] then d else v)"

section \<open>CustomHTTPRequestHandler.guess_type\<close>

text \<open>
  The first parameter stands for \<open>mimetypes.guess_type\<close> of the standard library, the
  general extension-to-MIME lookup: it returns the pair \<open>(mimetype, encoding)\<close>, each
  component \<open>None\<close> or a string. It is called first, as in the source, and its result
  is used only when none of the four suffix tests succeeds.
\<close>

definition guess_type :: "(pystr \<Rightarrow> pystr option \<times> pystr option) \<Rightarrow> pystr \<Rightarrow> pystr" where
  "guess_type mimetypes_guess_type path =
     (case mimetypes_guess_type path of (mimetype, encoding) \<Rightarrow>
        if endswith path (ascii ''.js'') then ascii ''text/javascript''
        else if endswith path (ascii ''.css'') then ascii ''text/css''
        else if endswith path (ascii ''.html'') then ascii ''text/html; charset=utf-8''
        else if endswith path (ascii ''.json'') then ascii ''application/json''
        else py_or mimetype (ascii ''application/octet-stream''))"

text \<open>
  Letter case: \<open>ascii_lower\<close> maps \<open>A\<close>..\<open>Z\<close> to \<open>a\<close>..\<open>z\<close> and leaves every other code
  point alone, which is what \<open>str.lower\<close> does on ASCII text. \<open>v\<close> is a case variant of
  \<open>s\<close> when the two differ and lower-case to the same string: they differ only in
  letter case.
\<close>

definition ascii_lower :: "nat \<Rightarrow> nat" where
  "ascii_lower c = (if 65 \<le> c \<and> c \<le> 90 then c + 32 else c)"

definition lower :: "pystr \<Rightarrow> pystr" where
  "lower s = map ascii_lower s"

definition case_variant :: "pystr \<Rightarrow> pystr \<Rightarrow> bool" where
  "case_variant v s = (v \<noteq> s \<and> lower v = lower s)"

definition special_suffixes :: "pystr list" where
  "special_suffixes = [ascii ''.js'', ascii ''.css'', ascii ''.html'', ascii ''.json'']"

text \<open>A string that starts with a dot and has no other dot.\<close>

definition dot_led :: "pystr \<Rightarrow> bool" where
  "dot_led x = (case x of [] \<Rightarrow> False | c # cs \<Rightarrow> c = 46 \<and> 46 \<notin> set cs)"

section \<open>Text helpers\<close>

text \<open>\<open>sub in s\<close>: \<open>sub\<close> occurs in \<open>s\<close> as a contiguous run.\<close>

fun contains :: "pystr \<Rightarrow> pystr \<Rightarrow> bool" where
  "contains [] sub = (sub = [])"
| "contains (c # cs) sub = (prefix sub (c # cs) \<or> contains cs sub)"

text \<open>\<open>str(n)\<close> for an integer, as an f-string field or \<open>%d\<close> renders it: decimal digits.\<close>

function digits :: "nat \<Rightarrow> pystr" where
  "digits n = (if n < 10 then [48 + n] else digits (n div 10) @ [48 + n mod 10])"
  by pat_completeness auto
termination
  by (relation "measure (\<lambda>n. n)") auto

declare digits.simps [simp del]

definition str_int :: "int \<Rightarrow> pystr" where
  "str_int i = (if i < 0 then 45 # digits (nat (- i)) else digits (nat i))"

section \<open>The request handler's headers\<close>

text \<open>
  \<open>CustomHTTPRequestHandler\<close> inherits from \<open>http.server.SimpleHTTPRequestHandler\<close>.
  The attributes of a handler that the header methods read and write:
  \<open>directory\<close> (the root the handler serves), \<open>request_version\<close>, the headers buffer
  (\<open>None\<close> while the attribute \<open>_headers_buffer\<close> does not exist), the bytes written to
  \<open>wfile\<close> so far, and \<open>close_connection\<close>. Bytes are their values 0..255.
\<close>

record handler =
  directory :: pystr
  request_version :: pystr
  headers_buffer :: "pystr list option"
  wfile :: pystr
  close_connection :: bool

datatype error = UnicodeEncodeError | AttributeError

definition and_then :: "error + 'a \<Rightarrow> ('a \<Rightarrow> error + 'b) \<Rightarrow> error + 'b" where
  "and_then r f = (case r of Inl e \<Rightarrow> Inl e | Inr x \<Rightarrow> f x)"

text \<open>\<open>s.encode('latin-1', 'strict')\<close> raises on a code point above 255.\<close>

definition encode_latin1 :: "pystr \<Rightarrow> error + pystr" where
  "encode_latin1 s = (if list_ex (\<lambda>c. 255 < c) s then Inl UnicodeEncodeError else Inr s)"

definition buffered :: "handler \<Rightarrow> pystr list" where
  "buffered h = (case headers_buffer h of None \<Rightarrow> [] | Some b \<Rightarrow> b)"

text \<open>
  The inherited methods of \<open>BaseHTTPRequestHandler\<close> that \<open>end_headers\<close> calls, as the
  standard library defines them. \<open>send_header\<close> appends the line
  \<open>keyword: value\<close> and CR LF to the buffer unless the request is an HTTP/0.9 one, and
  tracks a \<open>Connection\<close> header; the base \<open>end_headers\<close> appends the blank line and
  flushes the buffer to \<open>wfile\<close>, again unless the request is HTTP/0.9;
  \<open>send_response_only\<close> buffers the status line under the same condition, with
  \<open>protocol_version\<close> at its default \<open>HTTP/1.0\<close>, which the source leaves unchanged.
\<close>

definition send_header :: "handler \<Rightarrow> pystr \<Rightarrow> pystr \<Rightarrow> error + handler" where
  "send_header h keyword val =
     and_then
       (if request_version h \<noteq> ascii ''HTTP/0.9'' then
          and_then (encode_latin1 (keyword @ ascii '': '' @ val @ [13, 10]))
            (\<lambda>line. Inr (h\<lparr>headers_buffer := Some (buffered h @ [line])\<rparr>))
        else Inr h)
       (\<lambda>h1. Inr (if lower keyword = ascii ''connection'' then
                    (if lower val = ascii ''close'' then h1\<lparr>close_connection := True\<rparr>
                     else if lower val = ascii ''keep-alive''
                       then h1\<lparr>close_connection := False\<rparr>
                     else h1)
                  else h1))"

definition flush_headers :: "handler \<Rightarrow> handler" where
  "flush_headers h =
     (case headers_buffer h of
        None \<Rightarrow> h
      | Some b \<Rightarrow> h\<lparr>headers_buffer := Some [], wfile := wfile h @ concat b\<rparr>)"

definition super_end_headers :: "handler \<Rightarrow> error + handler" where
  "super_end_headers h =
     (if request_version h \<noteq> ascii ''HTTP/0.9'' then
        (case headers_buffer h of
           None \<Rightarrow> Inl AttributeError
         | Some b \<Rightarrow> Inr (flush_headers (h\<lparr>headers_buffer := Some (b @ [[13, 10]])\<rparr>)))
      else Inr h)"

definition send_response_only :: "handler \<Rightarrow> int \<Rightarrow> pystr \<Rightarrow> error + handler" where
  "send_response_only h code message =
     (if request_version h \<noteq> ascii ''HTTP/0.9'' then
        and_then
          (encode_latin1
             (ascii ''HTTP/1.0'' @ ascii '' '' @ str_int code @ ascii '' '' @ message @ [13, 10]))
          (\<lambda>line. Inr (h\<lparr>headers_buffer := Some (buffered h @ [line])\<rparr>))
      else Inr h)"

text \<open>\<open>CustomHTTPRequestHandler.end_headers\<close>: three headers, then the inherited method.\<close>

definition end_headers :: "handler \<Rightarrow> error + handler" where
  "end_headers h =
     and_then (send_header h (ascii ''Access-Control-Allow-Origin'') (ascii ''*''))
       (\<lambda>h1. and_then
          (send_header h1 (ascii ''Access-Control-Allow-Methods'') (ascii ''GET, POST, OPTIONS''))
          (\<lambda>h2. and_then
             (send_header h2 (ascii ''Access-Control-Allow-Headers'') (ascii ''Content-Type''))
             super_end_headers))"

text \<open>
  The order in which the inherited \<open>send_head\<close> and \<open>send_error\<close> write a response:
  the status line, the headers one by one, \<open>self.end_headers()\<close>, which is the method
  above, and then the body.
\<close>

fun send_headers :: "handler \<Rightarrow> (pystr \<times> pystr) list \<Rightarrow> error + handler" where
  "send_headers h [] = Inr h"
| "send_headers h ((k, v) # kvs) = and_then (send_header h k v) (\<lambda>h1. send_headers h1 kvs)"

definition write_response ::
  "handler \<Rightarrow> int \<Rightarrow> pystr \<Rightarrow> (pystr \<times> pystr) list \<Rightarrow> pystr \<Rightarrow> error + handler" where
  "write_response h code message hdrs body =
     and_then (send_response_only h code message)
       (\<lambda>h1. and_then (send_headers h1 hdrs)
          (\<lambda>h2. and_then (end_headers h2)
             (\<lambda>h3. Inr (h3\<lparr>wfile := wfile h3 @ body\<rparr>))))"

text \<open>The three header lines as they appear on the wire.\<close>

definition cors_lines :: "pystr list" where
  "cors_lines =
     [ascii ''Access-Control-Allow-Origin: *'' @ [13, 10],
      ascii ''Access-Control-Allow-Methods: GET, POST, OPTIONS'' @ [13, 10],
      ascii ''Access-Control-Allow-Headers: Content-Type'' @ [13, 10]]"

text \<open>
  Exceptions, as far as the handlers of \<open>start_server\<close> tell them apart: \<open>KeyboardInterrupt\<close>, an
  \<open>OSError\<close> with its \<open>errno\<close> (possibly \<open>None\<close>) and its text \<open>str(e)\<close>, and any other
  \<open>Exception\<close> with its text.
\<close>

datatype exc = KeyboardInterrupt | OSError "int option" pystr | OtherException pystr

section \<open>The served root\<close>

text \<open>
  \<open>CustomHTTPRequestHandler.__init__\<close> passes \<open>directory=os.getcwd()\<close> to the inherited
  constructor, which stores it in \<open>self.directory\<close>; the argument is the process's
  working directory at the moment the handler is constructed. The other fields hold
  the values with which a handler starts on a request line: \<open>parse_request\<close> first sets
  \<open>request_version\<close> to the default \<open>HTTP/0.9\<close> and \<open>close_connection\<close> to \<open>True\<close>, and
  nothing has been buffered or written.
\<close>

definition CustomHTTPRequestHandler_init :: "pystr \<Rightarrow> handler" where
  "CustomHTTPRequestHandler_init cwd =
     \<lparr>directory = cwd, request_version = ascii ''HTTP/0.9'', headers_buffer = None,
      wfile = [], close_connection = True\<rparr>"

text \<open>
  The accept loop constructs one handler per connection (\<open>finish_request\<close> of
  \<open>socketserver\<close>), and every construction evaluates \<open>os.getcwd()\<close> anew: nothing is
  stored when the process starts. The argument of \<open>finish_request\<close> is what that call
  does for the connection at hand: it returns a path, or it raises and no handler comes
  to exist. \<open>serve_connections\<close> takes, for the connections of one run of the server in
  their order, what \<open>os.getcwd()\<close> does for each.
\<close>

definition finish_request :: "exc + pystr \<Rightarrow> exc + handler" where
  "finish_request getcwd_result =
     (case getcwd_result of
        Inl e \<Rightarrow> Inl e
      | Inr cwd \<Rightarrow> Inr (CustomHTTPRequestHandler_init cwd))"

fun serve_connections :: "(exc + pystr) list \<Rightarrow> (exc + handler) list" where
  "serve_connections [] = []"
| "serve_connections (r # rs) = finish_request r # serve_connections rs"

section \<open>start_server and the command line\<close>

text \<open>
  What the process does is recorded as a list of events: a line printed with \<open>print\<close>,
  the construction of \<open>socketserver.TCPServer(("", port), ...)\<close>, which creates the
  socket and binds it, the call of \<open>serve_forever\<close>, and the \<open>server_close\<close> that leaving
  the \<open>with\<close> block performs.
\<close>

datatype event = Print pystr | TCPServer int | ServeForever | ServerClose

text \<open>
  The world around the process, as far as \<open>start_server\<close> meets it, call by call:
  whether \<open>os.path.exists('index.html')\<close> holds; what \<open>os.getcwd()\<close> and \<open>os.listdir('.')\<close>
  do in the diagnostics (\<open>Inr\<close>: the value returned; \<open>Inl e\<close>: \<open>e\<close> is raised, as
  \<open>FileNotFoundError\<close> is for a deleted working directory and \<open>PermissionError\<close> for an
  unreadable one); what constructing the server on a port does (\<open>None\<close>: it is bound;
  \<open>Some e\<close>: \<open>e\<close> is raised); what the \<open>os.getcwd()\<close> of the banner does; and how
  \<open>serve_forever\<close> ends (\<open>Some e\<close>: by the exception \<open>e\<close>; \<open>None\<close>: never).
  \<open>serve_forever\<close> has no normal return here, since nothing calls \<open>shutdown\<close>, and
  \<open>print\<close> is taken to succeed: standard output accepts the text.
\<close>

record env =
  index_exists :: bool
  getcwd_diag :: "exc + pystr"
  os_listdir :: "exc + pystr list"
  tcpserver_result :: "int \<Rightarrow> exc option"
  getcwd_banner :: "exc + pystr"
  serve_forever_result :: "exc option"

text \<open>
  The message literals of the source, code point by code point; the ASCII parts are
  written as ASCII.
\<close>

definition msg_no_index :: pystr where
  "msg_no_index = [35686, 21578] @ ascii '': '' @
     [24403, 21069, 30446, 24405, 20013, 27809, 26377, 25214, 21040] @
     ascii '' index.html '' @ [25991, 20214]"

definition msg_cwd :: pystr where
  "msg_cwd = [24403, 21069, 30446, 24405] @ ascii '': ''"

definition msg_listing :: pystr where
  "msg_listing = [30446, 24405, 20869, 23481] @ ascii '':''"

definition msg_started :: pystr where
  "msg_started = [10] @ ascii ''=== HTTP'' @
     [26381, 21153, 22120, 21551, 21160, 25104, 21151] @ ascii '' ===''"

definition msg_address :: pystr where
  "msg_address = [26381, 21153, 22120, 22320, 22336] @ ascii '': http://localhost:''"

definition msg_directory :: pystr where
  "msg_directory = [26381, 21153, 30446, 24405] @ ascii '': ''"

definition msg_how_to_stop :: pystr where
  "msg_how_to_stop = [25353] @ ascii '' Ctrl+C '' @ [20572, 27490, 26381, 21153, 22120, 10]"

definition msg_stopped :: pystr where
  "msg_stopped = [10, 26381, 21153, 22120, 24050, 20572, 27490]"

definition msg_port_in_use :: "int \<Rightarrow> pystr" where
  "msg_port_in_use port = [38169, 35823] @ ascii '': '' @ [31471, 21475] @ ascii '' '' @
     str_int port @ ascii '' '' @ [24050, 34987, 21344, 29992]"

definition msg_try_other :: "int \<Rightarrow> pystr" where
  "msg_try_other port =
     [35831, 23581, 35797, 20351, 29992, 20854, 20182, 31471, 21475, 65292, 20363, 22914] @
     ascii '': python server.py '' @ str_int (port + 1)"

definition msg_start_error :: "pystr \<Rightarrow> pystr" where
  "msg_start_error e =
     [21551, 21160, 26381, 21153, 22120, 26102, 20986, 38169] @ ascii '': '' @ e"

definition msg_unknown_error :: "pystr \<Rightarrow> pystr" where
  "msg_unknown_error e = [26410, 30693, 38169, 35823] @ ascii '': '' @ e"

definition msg_port_not_number :: pystr where
  "msg_port_not_number = [38169, 35823] @ ascii '': '' @
     [31471, 21475, 21495, 24517, 39035, 26159, 25968, 23383]"

text \<open>The three \<open>except\<close> clauses of \<open>start_server\<close>, in their order.\<close>

definition handle_exc :: "exc \<Rightarrow> int \<Rightarrow> event list" where
  "handle_exc e port =
     (case e of
        KeyboardInterrupt \<Rightarrow> [Print msg_stopped]
      | OSError errno text \<Rightarrow>
          if errno = Some 10048
          then [Print (msg_port_in_use port), Print (msg_try_other port)]
          else [Print (msg_start_error text)]
      | OtherException text \<Rightarrow> [Print (msg_unknown_error text)])"

text \<open>
  The \<open>if\<close> statement at the head of the \<open>try\<close> block: the lines it prints, and the
  exception that ends it if \<open>os.getcwd()\<close> or \<open>os.listdir('.')\<close> raises. The argument of
  a \<open>print\<close> is evaluated before the line is printed, and the listing is obtained before
  its first entry is printed.
\<close>

definition diagnostics :: "env \<Rightarrow> event list \<times> exc option" where
  "diagnostics w =
     (if \<not> index_exists w then
        (case getcwd_diag w of
           Inl e \<Rightarrow> ([Print msg_no_index], Some e)
         | Inr cwd \<Rightarrow>
             (case os_listdir w of
                Inl e \<Rightarrow>
                  ([Print msg_no_index, Print (msg_cwd @ cwd), Print msg_listing], Some e)
              | Inr items \<Rightarrow>
                  ([Print msg_no_index, Print (msg_cwd @ cwd), Print msg_listing] @
                   map (\<lambda>item. Print (ascii ''  '' @ item)) items, None)))
      else ([], None))"

text \<open>
  \<open>start_server\<close> yields the events in their order and whether the call returns
  (\<open>Some ()\<close>) or \<open>serve_forever\<close> keeps running for ever (\<open>None\<close>). An exception raised
  anywhere in the \<open>try\<close> block goes to the \<open>except\<close> clauses; one raised inside the
  \<open>with\<close> block closes the server first.
\<close>

definition start_server :: "env \<Rightarrow> int \<Rightarrow> event list \<times> unit option" where
  "start_server w port =
     (case diagnostics w of
        (d, Some e) \<Rightarrow> (d @ handle_exc e port, Some ())
      | (d, None) \<Rightarrow>
          (case tcpserver_result w port of
             Some e \<Rightarrow> (d @ [TCPServer port] @ handle_exc e port, Some ())
           | None \<Rightarrow>
               (case getcwd_banner w of
                  Inl e \<Rightarrow>
                    (d @ [TCPServer port, Print msg_started, Print (msg_address @ str_int port),
                          ServerClose] @ handle_exc e port, Some ())
                | Inr cwd \<Rightarrow>
                    (let up = d @
                           [TCPServer port, Print msg_started,
                            Print (msg_address @ str_int port), Print (msg_directory @ cwd),
                            Print msg_how_to_stop, ServeForever]
                     in case serve_forever_result w of
                          None \<Rightarrow> (up, None)
                        | Some e \<Rightarrow> (up @ [ServerClose] @ handle_exc e port, Some ())))))"

text \<open>
  The \<open>__main__\<close> block. \<open>int_of_str\<close> stands for the builtin \<open>int\<close> on a string
  (\<open>None\<close>: it raises \<open>ValueError\<close>); \<open>argv\<close> is \<open>sys.argv\<close>. \<open>parse_port\<close> is the port
  the block arrives at: 8000 without an argument, \<open>int(sys.argv[1])\<close> with one, and
  \<open>None\<close> where the \<open>except ValueError\<close> clause runs. The result of \<open>main\<close> is the events
  and the exit status of the process, \<open>None\<close> when the process never exits:
  \<open>sys.exit(1)\<close> gives 1, and running off the end of the script gives 0.
\<close>

definition parse_port :: "(pystr \<Rightarrow> int option) \<Rightarrow> pystr list \<Rightarrow> int option" where
  "parse_port int_of_str argv = (if length argv > 1 then int_of_str (argv ! 1) else Some 8000)"

definition main :: "(pystr \<Rightarrow> int option) \<Rightarrow> env \<Rightarrow> pystr list \<Rightarrow> event list \<times> int option" where
  "main int_of_str w argv =
     (case parse_port int_of_str argv of
        None \<Rightarrow> ([Print msg_port_not_number], Some 1)
      | Some port \<Rightarrow>
          (case start_server w port of (tr, r) \<Rightarrow> (tr, map_option (\<lambda>_. 0) r)))"

text \<open>
  \<open>int\<close> on a string of ASCII characters, for running \<open>main\<close> on concrete arguments:
  surrounding whitespace is dropped, one sign is allowed, and the rest is decimal digits,
  with single underscores allowed between digits.
\<close>

definition is_space :: "nat \<Rightarrow> bool" where
  "is_space c = (c = 32 \<or> (9 \<le> c \<and> c \<le> 13) \<or> (28 \<le> c \<and> c \<le> 31))"

definition is_digit :: "nat \<Rightarrow> bool" where
  "is_digit c = (48 \<le> c \<and> c \<le> 57)"

definition strip :: "pystr \<Rightarrow> pystr" where
  "strip s = rev (dropWhile is_space (rev (dropWhile is_space s)))"

fun digit_groups :: "pystr \<Rightarrow> bool" where
  "digit_groups [] = False"
| "digit_groups [c] = is_digit c"
| "digit_groups (c # d # cs) =
     (is_digit c \<and> (if d = 95 then digit_groups cs else digit_groups (d # cs)))"

definition int_ascii :: "pystr \<Rightarrow> int option" where
  "int_ascii s =
     (let t = strip s;
          neg = (t \<noteq> [] \<and> hd t = 45);
          u = (if t \<noteq> [] \<and> (hd t = 43 \<or> hd t = 45) then tl t else t)
      in if digit_groups u
         then let n = foldl (\<lambda>a c. 10 * a + int (c - 48)) 0 (filter is_digit u)
              in Some (if neg then - n else n)
         else None)"

text \<open>
  Worlds to run the program in. In \<open>linux_port_in_use\<close> every port is occupied and the
  bind fails as it does on Linux, with \<open>errno\<close> 98. In \<open>ports_out_of_range\<close> a port in
  0..65535 can be bound and any other port makes the bind raise \<open>OverflowError\<close>, as the
  socket module does. In both \<open>index.html\<close> exists. In \<open>cwd_deleted\<close> the working
  directory has been removed: \<open>index.html\<close> does not exist and \<open>os.getcwd()\<close> raises
  \<open>FileNotFoundError\<close>, while every port could be bound.
\<close>

definition linux_port_in_use :: env where
  "linux_port_in_use =
     \<lparr>index_exists = True, getcwd_diag = Inr (ascii ''/srv/site''), os_listdir = Inr [],
      tcpserver_result =
        (\<lambda>p. Some (OSError (Some 98) (ascii ''[Errno 98] Address already in use''))),
      getcwd_banner = Inr (ascii ''/srv/site''), serve_forever_result = None\<rparr>"

definition ports_out_of_range :: env where
  "ports_out_of_range =
     \<lparr>index_exists = True, getcwd_diag = Inr (ascii ''/srv/site''), os_listdir = Inr [],
      tcpserver_result =
        (\<lambda>p. if 0 \<le> p \<and> p \<le> 65535 then None
             else Some (OtherException (ascii ''bind(): port must be 0-65535.''))),
      getcwd_banner = Inr (ascii ''/srv/site''), serve_forever_result = None\<rparr>"


text \<open>The first code point of a printed line, to tell the messages apart.\<close>

definition first_cp :: "event \<Rightarrow> nat option" where
  "first_cp e = (case e of Print (c # cs) \<Rightarrow> Some c | _ \<Rightarrow> None)"

section \<open>Properties of guess_type\<close>

lemma endswith_suffix: "endswith s suf = suffix suf s"
proof
  assume "endswith s suf"
  then have "s = take (length s - length suf) s @ suf"
    by (metis append_take_drop_id endswith_def)
  then show "suffix suf s"
    by (metis suffixI)
next
  assume "suffix suf s"
  then obtain zs where "s = zs @ suf"
    by (auto simp: suffix_def)
  then show "endswith s suf"
    by (simp add: endswith_def)
qed

lemma dot_led_suffix_eq:
  assumes "dot_led a" and "dot_led b" and "suffix a b"
  shows "a = b"
proof -
  from assms(3) obtain zs where b: "b = zs @ a"
    by (auto simp: suffix_def)
  from assms(1) obtain as where a: "a = 46 # as"
    by (auto simp: dot_led_def split: list.splits)
  show ?thesis
  proof (cases zs)
    case Nil
    with b show ?thesis by simp
  next
    case (Cons z zs')
    with a b have "b = z # (zs' @ 46 # as)" by simp
    with assms(2) have False
      by (simp add: dot_led_def)
    then show ?thesis ..
  qed
qed

lemma dot_led_same_end:
  assumes "dot_led a" and "dot_led b" and "endswith p a" and "endswith p b"
  shows "a = b"
proof -
  from assms(3,4) have "suffix a p" and "suffix b p"
    by (simp_all add: endswith_suffix)
  then have "suffix a b \<or> suffix b a"
    by (rule suffix_same_cases)
  then show ?thesis
    using dot_led_suffix_eq [OF assms(1,2)] dot_led_suffix_eq [OF assms(2,1)] by auto
qed

lemma dot_led_special:
  "dot_led (ascii ''.js'')" "dot_led (ascii ''.css'')"
  "dot_led (ascii ''.html'')" "dot_led (ascii ''.json'')"
  by (simp_all add: dot_led_def ascii_def)

lemma special_distinct:
  "ascii ''.js'' \<noteq> ascii ''.css''" "ascii ''.js'' \<noteq> ascii ''.html''"
  "ascii ''.js'' \<noteq> ascii ''.json''" "ascii ''.css'' \<noteq> ascii ''.html''"
  "ascii ''.css'' \<noteq> ascii ''.json''" "ascii ''.html'' \<noteq> ascii ''.json''"
  by (simp_all add: ascii_def)

lemma not_other_special:
  assumes "dot_led v" and "endswith path v"
  shows "v \<noteq> ascii ''.js'' \<Longrightarrow> \<not> endswith path (ascii ''.js'')"
    and "v \<noteq> ascii ''.css'' \<Longrightarrow> \<not> endswith path (ascii ''.css'')"
    and "v \<noteq> ascii ''.html'' \<Longrightarrow> \<not> endswith path (ascii ''.html'')"
    and "v \<noteq> ascii ''.json'' \<Longrightarrow> \<not> endswith path (ascii ''.json'')"
  using dot_led_same_end [OF assms(1) _ assms(2)] dot_led_special by blast+

text \<open>
  C1. A path that ends in one of the four supported suffixes gets exactly the content
  type of the MIME inference policy, whatever the general lookup \<open>g\<close> returns for it:
  \<open>.js\<close> gives \<open>text/javascript\<close>, \<open>.css\<close> gives \<open>text/css\<close>, \<open>.html\<close> gives
  \<open>text/html; charset=utf-8\<close> and \<open>.json\<close> gives \<open>application/json\<close>.
\<close>

theorem guess_type_special:
  "(endswith path (ascii ''.js'') \<longrightarrow> guess_type g path = ascii ''text/javascript'') \<and>
   (endswith path (ascii ''.css'') \<longrightarrow> guess_type g path = ascii ''text/css'') \<and>
   (endswith path (ascii ''.html'') \<longrightarrow>
      guess_type g path = ascii ''text/html; charset=utf-8'') \<and>
   (endswith path (ascii ''.json'') \<longrightarrow> guess_type g path = ascii ''application/json'')"
proof (intro conjI impI)
  assume "endswith path (ascii ''.js'')"
  then show "guess_type g path = ascii ''text/javascript''"
    by (simp add: guess_type_def split: prod.splits)
next
  assume e: "endswith path (ascii ''.css'')"
  from not_other_special(1) [OF dot_led_special(2) e]
  have "\<not> endswith path (ascii ''.js'')"
    using special_distinct by metis
  with e show "guess_type g path = ascii ''text/css''"
    by (simp add: guess_type_def split: prod.splits)
next
  assume e: "endswith path (ascii ''.html'')"
  from not_other_special(1,2) [OF dot_led_special(3) e]
  have "\<not> endswith path (ascii ''.js'')" and "\<not> endswith path (ascii ''.css'')"
    using special_distinct by metis+
  with e show "guess_type g path = ascii ''text/html; charset=utf-8''"
    by (simp add: guess_type_def split: prod.splits)
next
  assume e: "endswith path (ascii ''.json'')"
  from not_other_special(1,2,3) [OF dot_led_special(4) e]
  have "\<not> endswith path (ascii ''.js'')" and "\<not> endswith path (ascii ''.css'')"
    and "\<not> endswith path (ascii ''.html'')"
    using special_distinct by metis+
  with e show "guess_type g path = ascii ''application/json''"
    by (simp add: guess_type_def split: prod.splits)
qed

theorem guess_type_special_witness:
  "endswith (ascii ''/app.js'') (ascii ''.js'') \<and>
   endswith (ascii ''/css/site.css'') (ascii ''.css'') \<and>
   endswith (ascii ''/index.html'') (ascii ''.html'') \<and>
   endswith (ascii ''/data.json'') (ascii ''.json'') \<and>
   guess_type (\<lambda>p. (Some (ascii ''application/x-other''), None)) (ascii ''/app.js'')
     = ascii ''text/javascript'' \<and>
   guess_type (\<lambda>p. (Some (ascii ''application/x-other''), None)) (ascii ''/css/site.css'')
     = ascii ''text/css'' \<and>
   guess_type (\<lambda>p. (Some (ascii ''application/x-other''), None)) (ascii ''/index.html'')
     = ascii ''text/html; charset=utf-8'' \<and>
   guess_type (\<lambda>p. (Some (ascii ''application/x-other''), None)) (ascii ''/data.json'')
     = ascii ''application/json''"
proof -
  have e: "endswith (ascii ''/app.js'') (ascii ''.js'')"
    "endswith (ascii ''/css/site.css'') (ascii ''.css'')"
    "endswith (ascii ''/index.html'') (ascii ''.html'')"
    "endswith (ascii ''/data.json'') (ascii ''.json'')"
    by (simp_all add: endswith_def ascii_def)
  show ?thesis
    using e
      guess_type_special [of "ascii ''/app.js''" "\<lambda>p. (Some (ascii ''application/x-other''), None)"]
      guess_type_special [of "ascii ''/css/site.css''" "\<lambda>p. (Some (ascii ''application/x-other''), None)"]
      guess_type_special [of "ascii ''/index.html''" "\<lambda>p. (Some (ascii ''application/x-other''), None)"]
      guess_type_special [of "ascii ''/data.json''" "\<lambda>p. (Some (ascii ''application/x-other''), None)"]
    by blast
qed

lemma guess_type_fallback:
  assumes "\<not> endswith path (ascii ''.js'')" and "\<not> endswith path (ascii ''.css'')"
    and "\<not> endswith path (ascii ''.html'')" and "\<not> endswith path (ascii ''.json'')"
  shows "guess_type g path = py_or (fst (g path)) (ascii ''application/octet-stream'')"
  using assms by (cases "g path") (simp add: guess_type_def)

lemma py_or_nonempty:
  "x \<noteq> Some [] \<Longrightarrow> py_or x d = (case x of None \<Rightarrow> d | Some m \<Rightarrow> m)"
  by (simp add: py_or_def split: option.splits)

text \<open>
  C7. A path that ends in none of the four special suffixes gets the general lookup's
  MIME type for that path, and \<open>application/octet-stream\<close> when the lookup has none. A
  MIME type the lookup returns is a non-empty string.
\<close>

theorem guess_type_general:
  assumes "\<not> endswith path (ascii ''.js'')" and "\<not> endswith path (ascii ''.css'')"
    and "\<not> endswith path (ascii ''.html'')" and "\<not> endswith path (ascii ''.json'')"
    and "fst (g path) \<noteq> Some []"
  shows "guess_type g path =
           (case fst (g path) of None \<Rightarrow> ascii ''application/octet-stream'' | Some m \<Rightarrow> m)"
  using guess_type_fallback [OF assms(1-4)] py_or_nonempty [OF assms(5)] by simp

theorem guess_type_general_witness:
  "guess_type (\<lambda>p. (Some (ascii ''image/png''), None)) (ascii ''/img/logo.png'')
     = ascii ''image/png'' \<and>
   guess_type (\<lambda>p. (None, None)) (ascii ''/notes.xyz'') = ascii ''application/octet-stream''"
proof -
  have a: "\<not> endswith (ascii ''/img/logo.png'') (ascii ''.js'')"
    "\<not> endswith (ascii ''/img/logo.png'') (ascii ''.css'')"
    "\<not> endswith (ascii ''/img/logo.png'') (ascii ''.html'')"
    "\<not> endswith (ascii ''/img/logo.png'') (ascii ''.json'')"
    by (simp_all add: endswith_def ascii_def)
  have b: "\<not> endswith (ascii ''/notes.xyz'') (ascii ''.js'')"
    "\<not> endswith (ascii ''/notes.xyz'') (ascii ''.css'')"
    "\<not> endswith (ascii ''/notes.xyz'') (ascii ''.html'')"
    "\<not> endswith (ascii ''/notes.xyz'') (ascii ''.json'')"
    by (simp_all add: endswith_def ascii_def)
  have c: "fst (Some (ascii ''image/png''), None :: pystr option) \<noteq> Some []"
    by (simp add: ascii_def)
  have d: "fst (None :: pystr option, None :: pystr option) \<noteq> Some []"
    by simp
  show ?thesis
    using guess_type_general [of "ascii ''/img/logo.png''"
        "\<lambda>p. (Some (ascii ''image/png''), None)", OF a c]
      guess_type_general [of "ascii ''/notes.xyz''" "\<lambda>p. (None, None)", OF b d]
    by simp
qed

text \<open>
  The remaining case of the final \<open>or\<close>: an empty string from the lookup is falsy, so
  the fallback type is returned for it as well.
\<close>

lemma guess_type_empty_lookup:
  assumes "\<not> endswith path (ascii ''.js'')" and "\<not> endswith path (ascii ''.css'')"
    and "\<not> endswith path (ascii ''.html'')" and "\<not> endswith path (ascii ''.json'')"
    and "fst (g path) = Some []"
  shows "guess_type g path = ascii ''application/octet-stream''"
  using guess_type_fallback [OF assms(1-4)] assms(5) by (simp add: py_or_def)

lemma ascii_lower_dot: "ascii_lower c = 46 \<longleftrightarrow> c = 46"
  by (simp add: ascii_lower_def)

lemma dot_led_lower: "dot_led (lower v) = dot_led v"
proof (cases v)
  case Nil
  then show ?thesis by (simp add: lower_def)
next
  case (Cons c cs)
  have "46 \<in> ascii_lower ` set cs \<longleftrightarrow> 46 \<in> set cs"
    using ascii_lower_dot by (metis (no_types, lifting) image_iff)
  with Cons show ?thesis
    by (simp add: lower_def dot_led_def ascii_lower_dot)
qed

lemma lower_special:
  "lower (ascii ''.js'') = ascii ''.js''" "lower (ascii ''.css'') = ascii ''.css''"
  "lower (ascii ''.html'') = ascii ''.html''" "lower (ascii ''.json'') = ascii ''.json''"
  by (simp_all add: lower_def ascii_def ascii_lower_def)

lemma special_suffixes_cases:
  "s \<in> set special_suffixes \<longleftrightarrow>
     s = ascii ''.js'' \<or> s = ascii ''.css'' \<or> s = ascii ''.html'' \<or> s = ascii ''.json''"
  by (auto simp: special_suffixes_def)

lemma case_variant_not_special:
  assumes "s \<in> set special_suffixes" and "case_variant v s"
  shows "dot_led v" and "v \<notin> set special_suffixes"
proof -
  from assms(2) have ne: "v \<noteq> s" and lo: "lower v = lower s"
    by (simp_all add: case_variant_def)
  from assms(1) have ls: "lower s = s" and ds: "dot_led s"
    using lower_special dot_led_special by (auto simp: special_suffixes_cases)
  from lo ls ds show "dot_led v"
    by (metis dot_led_lower)
  show "v \<notin> set special_suffixes"
  proof
    assume "v \<in> set special_suffixes"
    then have "lower v = v"
      using lower_special by (auto simp: special_suffixes_cases)
    with lo ls ne show False by simp
  qed
qed

text \<open>
  C10. The special-suffix rules match case-sensitively. A path that ends in a case
  variant of one of the four suffixes (such as \<open>.JS\<close> or \<open>.Html\<close>) ends in none of
  the four suffixes themselves, so guess_type applies no special rule to it and returns
  the general lookup's MIME type, or \<open>application/octet-stream\<close> when the lookup has
  none.
\<close>

theorem guess_type_case_sensitive:
  assumes "s \<in> set special_suffixes" and "case_variant v s" and "endswith path v"
    and "fst (g path) \<noteq> Some []"
  shows "(\<forall>t \<in> set special_suffixes. \<not> endswith path t) \<and>
         guess_type g path =
           (case fst (g path) of None \<Rightarrow> ascii ''application/octet-stream'' | Some m \<Rightarrow> m)"
proof -
  note cv = case_variant_not_special [OF assms(1,2)]
  from cv(2) have ne: "v \<noteq> ascii ''.js''" "v \<noteq> ascii ''.css''"
    "v \<noteq> ascii ''.html''" "v \<noteq> ascii ''.json''"
    by (simp_all add: special_suffixes_cases)
  note no = not_other_special(1) [OF cv(1) assms(3) ne(1)]
    not_other_special(2) [OF cv(1) assms(3) ne(2)]
    not_other_special(3) [OF cv(1) assms(3) ne(3)]
    not_other_special(4) [OF cv(1) assms(3) ne(4)]
  from no have "\<forall>t \<in> set special_suffixes. \<not> endswith path t"
    by (simp add: special_suffixes_def)
  moreover have "guess_type g path =
      (case fst (g path) of None \<Rightarrow> ascii ''application/octet-stream'' | Some m \<Rightarrow> m)"
    using guess_type_fallback [OF no] py_or_nonempty [OF assms(4)] by simp
  ultimately show ?thesis ..
qed

theorem guess_type_case_sensitive_witness:
  "ascii ''.js'' \<in> set special_suffixes \<and> case_variant (ascii ''.JS'') (ascii ''.js'') \<and>
   endswith (ascii ''/lib/APP.JS'') (ascii ''.JS'') \<and>
   guess_type (\<lambda>p. (Some (ascii ''text/plain''), None)) (ascii ''/lib/APP.JS'')
     = ascii ''text/plain'' \<and>
   ascii ''.html'' \<in> set special_suffixes \<and>
   case_variant (ascii ''.Html'') (ascii ''.html'') \<and>
   endswith (ascii ''/Index.Html'') (ascii ''.Html'') \<and>
   guess_type (\<lambda>p. (None, None)) (ascii ''/Index.Html'') = ascii ''application/octet-stream''"
proof -
  have a: "ascii ''.js'' \<in> set special_suffixes" "ascii ''.html'' \<in> set special_suffixes"
    by (simp_all add: special_suffixes_def)
  have b: "case_variant (ascii ''.JS'') (ascii ''.js'')"
    "case_variant (ascii ''.Html'') (ascii ''.html'')"
    by (simp_all add: case_variant_def lower_def ascii_lower_def ascii_def)
  have c: "endswith (ascii ''/lib/APP.JS'') (ascii ''.JS'')"
    "endswith (ascii ''/Index.Html'') (ascii ''.Html'')"
    by (simp_all add: endswith_def ascii_def)
  have d: "fst (Some (ascii ''text/plain''), None :: pystr option) \<noteq> Some []"
    "fst (None :: pystr option, None :: pystr option) \<noteq> Some []"
    by (simp_all add: ascii_def)
  show ?thesis
    using a b c
      guess_type_case_sensitive [of "ascii ''.js''" "ascii ''.JS''" "ascii ''/lib/APP.JS''"
        "\<lambda>p. (Some (ascii ''text/plain''), None)", OF a(1) b(1) c(1) d(1)]
      guess_type_case_sensitive [of "ascii ''.html''" "ascii ''.Html''" "ascii ''/Index.Html''"
        "\<lambda>p. (None, None)", OF a(2) b(2) c(2) d(2)]
    by simp
qed

section \<open>Properties of end_headers\<close>

lemma contains_mid: "contains (a @ b @ c) b"
proof (induction a)
  case Nil
  show ?case
  proof (cases "b @ c")
    case Nil
    then show ?thesis by simp
  next
    case (Cons x xs)
    have "prefix b (b @ c)" by simp
    with Cons show ?thesis by simp
  qed
next
  case (Cons x a)
  then show ?case by simp
qed

lemma concat_member:
  assumes "l \<in> set xs"
  shows "\<exists>a b. concat xs = a @ l @ b"
proof -
  from assms obtain ys zs where "xs = ys @ l # zs"
    by (auto dest: split_list)
  then have "concat xs = concat ys @ l @ concat zs"
    by simp
  then show ?thesis
    by blast
qed

lemma cors_lines_contained:
  assumes "l \<in> set cors_lines"
  shows "contains (pre @ concat cors_lines @ post) l"
proof -
  from concat_member [OF assms] obtain a b where "concat cors_lines = a @ l @ b"
    by blast
  then have "pre @ concat cors_lines @ post = (pre @ a) @ l @ (b @ post)"
    by simp
  then show ?thesis
    using contains_mid [of "pre @ a" l "b @ post"] by simp
qed

lemma and_then_Inr: "and_then (Inr x) f = f x"
  by (simp add: and_then_def)

lemma and_then_Inr_iff:
  "and_then r f = Inr y \<longleftrightarrow> (\<exists>x. r = Inr x \<and> f x = Inr y)"
  by (cases r) (simp_all add: and_then_def)

lemma send_header_plain:
  assumes "request_version h \<noteq> ascii ''HTTP/0.9''"
    and "\<not> list_ex (\<lambda>c. 255 < c) (k @ ascii '': '' @ v @ [13, 10])"
    and "lower k \<noteq> ascii ''connection''"
  shows "send_header h k v = Inr (h\<lparr>headers_buffer := Some (buffered h @ [k @ ascii '': '' @ v @ [13, 10]])\<rparr>)"
  using assms by (simp add: send_header_def and_then_def encode_latin1_def)

lemma cors_plain:
  "\<not> list_ex (\<lambda>c. 255 < c) (ascii ''Access-Control-Allow-Origin'' @ ascii '': '' @ ascii ''*'' @ [13, 10])"
  "\<not> list_ex (\<lambda>c. 255 < c) (ascii ''Access-Control-Allow-Methods'' @ ascii '': '' @ ascii ''GET, POST, OPTIONS'' @ [13, 10])"
  "\<not> list_ex (\<lambda>c. 255 < c) (ascii ''Access-Control-Allow-Headers'' @ ascii '': '' @ ascii ''Content-Type'' @ [13, 10])"
  "lower (ascii ''Access-Control-Allow-Origin'') \<noteq> ascii ''connection''"
  "lower (ascii ''Access-Control-Allow-Methods'') \<noteq> ascii ''connection''"
  "lower (ascii ''Access-Control-Allow-Headers'') \<noteq> ascii ''connection''"
  by (simp_all add: ascii_def lower_def)

lemma end_headers_new:
  assumes "request_version h \<noteq> ascii ''HTTP/0.9''"
  shows "end_headers h =
     Inr (h\<lparr>headers_buffer := Some [],
            wfile := wfile h @ concat (buffered h) @ concat cors_lines @ [13, 10]\<rparr>)"
proof -
  let ?l1 = "ascii ''Access-Control-Allow-Origin'' @ ascii '': '' @ ascii ''*'' @ [13, 10]"
  let ?l2 = "ascii ''Access-Control-Allow-Methods'' @ ascii '': '' @ ascii ''GET, POST, OPTIONS'' @ [13, 10]"
  let ?l3 = "ascii ''Access-Control-Allow-Headers'' @ ascii '': '' @ ascii ''Content-Type'' @ [13, 10]"
  let ?h1 = "h\<lparr>headers_buffer := Some (buffered h @ [?l1])\<rparr>"
  let ?h2 = "h\<lparr>headers_buffer := Some (buffered h @ [?l1, ?l2])\<rparr>"
  let ?h3 = "h\<lparr>headers_buffer := Some (buffered h @ [?l1, ?l2, ?l3])\<rparr>"
  have s1: "send_header h (ascii ''Access-Control-Allow-Origin'') (ascii ''*'') = Inr ?h1"
    using send_header_plain [OF assms cors_plain(1) cors_plain(4)] .
  have v1: "request_version ?h1 \<noteq> ascii ''HTTP/0.9''" using assms by simp
  have s2: "send_header ?h1 (ascii ''Access-Control-Allow-Methods'') (ascii ''GET, POST, OPTIONS'') = Inr ?h2"
    using send_header_plain [OF v1 cors_plain(2) cors_plain(5)] by (simp add: buffered_def)
  have v2: "request_version ?h2 \<noteq> ascii ''HTTP/0.9''" using assms by simp
  have s3: "send_header ?h2 (ascii ''Access-Control-Allow-Headers'') (ascii ''Content-Type'') = Inr ?h3"
    using send_header_plain [OF v2 cors_plain(3) cors_plain(6)] by (simp add: buffered_def)
  have e: "super_end_headers ?h3 =
     Inr (h\<lparr>headers_buffer := Some [],
            wfile := wfile h @ concat (buffered h) @ ?l1 @ ?l2 @ ?l3 @ [13, 10]\<rparr>)"
    using assms by (simp add: super_end_headers_def flush_headers_def)
  have c: "concat cors_lines = ?l1 @ ?l2 @ ?l3"
    by (simp add: cors_lines_def ascii_def)
  have "end_headers h = Inr (h\<lparr>headers_buffer := Some [],
            wfile := wfile h @ concat (buffered h) @ ?l1 @ ?l2 @ ?l3 @ [13, 10]\<rparr>)"
    by (simp only: end_headers_def s1 s2 s3 e and_then_Inr)
  then show ?thesis
    by (simp add: c)
qed

text \<open>
  C2. Every response whose request is not an HTTP/0.9 one carries the three CORS headers,
  whatever its status line and its other headers are: for every handler state with
  \<open>request_version\<close> other than \<open>HTTP/0.9\<close>, \<open>end_headers\<close> succeeds and writes the buffered
  status line and headers, then the lines \<open>Access-Control-Allow-Origin: *\<close>,
  \<open>Access-Control-Allow-Methods: GET, POST, OPTIONS\<close> and
  \<open>Access-Control-Allow-Headers: Content-Type\<close>, then the blank line, so each of the three
  lines occurs in the header block written.
\<close>

theorem end_headers_cors:
  assumes "request_version h \<noteq> ascii ''HTTP/0.9''"
  shows "end_headers h =
           Inr (h\<lparr>headers_buffer := Some [],
                  wfile := wfile h @ concat (buffered h) @ concat cors_lines @ [13, 10]\<rparr>) \<and>
         (\<forall>l \<in> set cors_lines. contains (concat (buffered h) @ concat cors_lines @ [13, 10]) l)"
  using end_headers_new [OF assms] cors_lines_contained by simp

theorem end_headers_cors_witness:
  "end_headers \<lparr>directory = ascii ''/srv/site'', request_version = ascii ''HTTP/1.1'',
       headers_buffer = Some [ascii ''HTTP/1.0 404 File not found'' @ [13, 10]], wfile = [],
       close_connection = True\<rparr>
   = Inr \<lparr>directory = ascii ''/srv/site'', request_version = ascii ''HTTP/1.1'',
       headers_buffer = Some [],
       wfile = ascii ''HTTP/1.0 404 File not found'' @ [13, 10] @
         ascii ''Access-Control-Allow-Origin: *'' @ [13, 10] @
         ascii ''Access-Control-Allow-Methods: GET, POST, OPTIONS'' @ [13, 10] @
         ascii ''Access-Control-Allow-Headers: Content-Type'' @ [13, 10] @ [13, 10],
       close_connection = True\<rparr>"
proof -
  have a: "request_version \<lparr>directory = ascii ''/srv/site'', request_version = ascii ''HTTP/1.1'',
       headers_buffer = Some [ascii ''HTTP/1.0 404 File not found'' @ [13, 10]], wfile = [],
       close_connection = True\<rparr> \<noteq> ascii ''HTTP/0.9''"
    by (simp add: ascii_def)
  show ?thesis
    using end_headers_cors [OF a] by (simp add: buffered_def cors_lines_def)
qed

text \<open>
  For an HTTP/0.9 request (a request line without a version, or one that fails to parse
  before the version is set) the inherited methods buffer and write no header at all: a
  404 response then consists of its body alone, without any CORS header.
\<close>

theorem http09_response_counterexample:
  "write_response (CustomHTTPRequestHandler_init (ascii ''/srv/site'')) 404
      (ascii ''File not found'')
      [(ascii ''Connection'', ascii ''close''),
       (ascii ''Content-Type'', ascii ''text/html;charset=utf-8'')]
      (ascii ''Error 404'')
   = Inr \<lparr>directory = ascii ''/srv/site'', request_version = ascii ''HTTP/0.9'',
          headers_buffer = None, wfile = ascii ''Error 404'', close_connection = True\<rparr> \<and>
   end_headers (CustomHTTPRequestHandler_init (ascii ''/srv/site''))
   = Inr (CustomHTTPRequestHandler_init (ascii ''/srv/site''))"
  by (simp add: write_response_def send_response_only_def end_headers_def send_header_def
      super_end_headers_def and_then_def CustomHTTPRequestHandler_init_def lower_def
      ascii_lower_def ascii_def)

text \<open>
  The same for a whole response as the inherited methods write it: when it is written
  for a request that is not HTTP/0.9, the bytes on the wire are some status line and
  headers, the three CORS lines, the blank line and the body.
\<close>

lemma send_header_keeps:
  assumes "send_header h k v = Inr h1"
  shows "request_version h1 = request_version h \<and> wfile h1 = wfile h"
  using assms
  by (auto simp: send_header_def and_then_Inr_iff split: if_splits)

lemma send_headers_keeps:
  "send_headers h kvs = Inr h1 \<Longrightarrow> request_version h1 = request_version h \<and> wfile h1 = wfile h"
proof (induction kvs arbitrary: h)
  case Nil
  then show ?case by simp
next
  case (Cons kv kvs)
  obtain k v where kv: "kv = (k, v)" by (cases kv)
  from Cons.prems kv obtain h0 where a: "send_header h k v = Inr h0"
    and b: "send_headers h0 kvs = Inr h1"
    by (auto simp: and_then_Inr_iff)
  from Cons.IH [OF b] send_header_keeps [OF a] show ?case by simp
qed

lemma send_response_only_keeps:
  assumes "send_response_only h code message = Inr h1"
  shows "request_version h1 = request_version h \<and> wfile h1 = wfile h"
  using assms
  by (auto simp: send_response_only_def and_then_Inr_iff split: if_splits)

lemma write_response_cors:
  assumes "request_version h \<noteq> ascii ''HTTP/0.9''"
    and "write_response h code message hdrs body = Inr h'"
  shows "\<exists>pre. wfile h' = wfile h @ pre @ concat cors_lines @ [13, 10] @ body"
proof -
  from assms(2) obtain h1 h2 h3 where a: "send_response_only h code message = Inr h1"
    and b: "send_headers h1 hdrs = Inr h2" and c: "end_headers h2 = Inr h3"
    and d: "h' = h3\<lparr>wfile := wfile h3 @ body\<rparr>"
    by (auto simp: write_response_def and_then_Inr_iff)
  from send_response_only_keeps [OF a] send_headers_keeps [OF b] assms(1)
  have v: "request_version h2 \<noteq> ascii ''HTTP/0.9''" and w: "wfile h2 = wfile h"
    by simp_all
  from end_headers_new [OF v] c w
  have "wfile h3 = wfile h @ concat (buffered h2) @ concat cors_lines @ [13, 10]"
    by auto
  with d show ?thesis by simp
qed

section \<open>Properties of the served root\<close>

lemma serve_connections_length: "length (serve_connections rs) = length rs"
  by (induction rs) simp_all

lemma serve_connections_nth:
  "i < length rs \<Longrightarrow> serve_connections rs ! i = finish_request (rs ! i)"
proof (induction rs arbitrary: i)
  case Nil
  then show ?case by simp
next
  case (Cons r rs)
  then show ?case by (cases i) simp_all
qed

lemma serve_connections_set: "set (serve_connections rs) = finish_request ` set rs"
  by (induction rs) simp_all

text \<open>
  C9. The root directory served to a connection is the working directory that
  \<open>os.getcwd()\<close> returns when the handler of that connection is constructed: it is read
  for every connection and not stored when the process starts, and a connection for
  which the call raises gets no handler. All connections are served the same root \<open>c\<close>
  as long as every one of these calls returns \<open>c\<close>.
\<close>

theorem root_read_per_connection:
  "length (serve_connections rs) = length rs \<and>
   (\<forall>i < length rs. \<forall>cwd. rs ! i = Inr cwd \<longrightarrow>
      (\<exists>h. serve_connections rs ! i = Inr h \<and> directory h = cwd)) \<and>
   (\<forall>i < length rs. \<forall>e. rs ! i = Inl e \<longrightarrow> serve_connections rs ! i = Inl e) \<and>
   ((\<forall>r \<in> set rs. r = Inr c) \<longrightarrow>
      (\<forall>x \<in> set (serve_connections rs). \<exists>h. x = Inr h \<and> directory h = c))"
proof (intro conjI allI impI ballI)
  show "length (serve_connections rs) = length rs"
    by (rule serve_connections_length)
next
  fix i cwd
  assume "i < length rs" and "rs ! i = Inr cwd"
  then show "\<exists>h. serve_connections rs ! i = Inr h \<and> directory h = cwd"
    by (simp add: serve_connections_nth finish_request_def CustomHTTPRequestHandler_init_def)
next
  fix i e
  assume "i < length rs" and "rs ! i = Inl e"
  then show "serve_connections rs ! i = Inl e"
    by (simp add: serve_connections_nth finish_request_def)
next
  fix x
  assume a: "\<forall>r \<in> set rs. r = Inr c" and "x \<in> set (serve_connections rs)"
  then obtain r where "r \<in> set rs" and "x = finish_request r"
    by (auto simp: serve_connections_set)
  with a show "\<exists>h. x = Inr h \<and> directory h = c"
    by (auto simp: finish_request_def CustomHTTPRequestHandler_init_def)
qed

theorem root_read_per_connection_witness:
  "map (map_sum id directory)
     (serve_connections [Inr (ascii ''/srv/site''), Inl (OSError (Some 2) []),
        Inr (ascii ''/srv/site'')])
   = [Inr (ascii ''/srv/site''), Inl (OSError (Some 2) []), Inr (ascii ''/srv/site'')] \<and>
   map (map_sum id directory)
     (serve_connections [Inr (ascii ''/srv/site''), Inr (ascii ''/srv/site'')])
   = [Inr (ascii ''/srv/site''), Inr (ascii ''/srv/site'')]"
proof -
  have a: "\<forall>r \<in> set [Inr (ascii ''/srv/site''), Inr (ascii ''/srv/site'') :: exc + pystr].
      r = Inr (ascii ''/srv/site'')"
    by simp
  show ?thesis
    using a
      root_read_per_connection [of "[Inr (ascii ''/srv/site''), Inr (ascii ''/srv/site'')]"
        "ascii ''/srv/site''"]
      root_read_per_connection [of "[Inr (ascii ''/srv/site''), Inl (OSError (Some 2) []),
        Inr (ascii ''/srv/site'')]" "ascii ''/srv/site''"]
    by (simp add: finish_request_def CustomHTTPRequestHandler_init_def)
qed

text \<open>
  The working directory renamed between two connections: \<open>os.getcwd()\<close> returns the new
  path for the second one, which is served a root other than that of the first.
\<close>

theorem root_changes_counterexample:
  "map (map_sum id directory)
     (serve_connections [Inr (ascii ''/srv/site''), Inr (ascii ''/srv/moved'')])
   = [Inr (ascii ''/srv/site''), Inr (ascii ''/srv/moved'')] \<and>
   ascii ''/srv/site'' \<noteq> ascii ''/srv/moved''"
  by (simp add: finish_request_def CustomHTTPRequestHandler_init_def ascii_def)

section \<open>Properties of start_server\<close>

lemma diagnostics_prints: "e \<in> set (fst (diagnostics w)) \<Longrightarrow> \<exists>s. e = Print s"
  by (auto simp: diagnostics_def split: if_splits sum.splits)

lemma handle_exc_prints: "e \<in> set (handle_exc x port) \<Longrightarrow> \<exists>s. e = Print s"
  by (auto simp: handle_exc_def split: exc.splits if_splits)

lemma handle_exc_last: "handle_exc x port \<noteq> [] \<and> (\<exists>s. last (handle_exc x port) = Print s)"
  by (simp add: handle_exc_def split: exc.splits)

lemma start_server_diagnostics_raise:
  "snd (diagnostics w) = Some e \<Longrightarrow>
     start_server w port = (fst (diagnostics w) @ handle_exc e port, Some ())"
  by (cases "diagnostics w") (simp add: start_server_def)

lemma start_server_bind_fails:
  "snd (diagnostics w) = None \<Longrightarrow> tcpserver_result w port = Some e \<Longrightarrow>
     start_server w port = (fst (diagnostics w) @ [TCPServer port] @ handle_exc e port, Some ())"
  by (cases "diagnostics w") (simp add: start_server_def)

lemma start_server_banner_raises:
  "snd (diagnostics w) = None \<Longrightarrow> tcpserver_result w port = None \<Longrightarrow>
   getcwd_banner w = Inl e \<Longrightarrow>
     start_server w port =
       (fst (diagnostics w) @
        [TCPServer port, Print msg_started, Print (msg_address @ str_int port), ServerClose] @
        handle_exc e port, Some ())"
  by (cases "diagnostics w") (simp add: start_server_def)

lemma start_server_serves:
  "snd (diagnostics w) = None \<Longrightarrow> tcpserver_result w port = None \<Longrightarrow>
   getcwd_banner w = Inr cwd \<Longrightarrow>
     start_server w port =
       (fst (diagnostics w) @
        [TCPServer port, Print msg_started, Print (msg_address @ str_int port),
         Print (msg_directory @ cwd), Print msg_how_to_stop, ServeForever] @
        (case serve_forever_result w of None \<Rightarrow> [] | Some e \<Rightarrow> ServerClose # handle_exc e port),
        case serve_forever_result w of None \<Rightarrow> None | Some e \<Rightarrow> Some ())"
  by (cases "diagnostics w") (simp add: start_server_def Let_def split: option.splits)

lemma start_server_cases:
  obtains (diag) e where "snd (diagnostics w) = Some e"
  | (bind) e where "snd (diagnostics w) = None" and "tcpserver_result w port = Some e"
  | (banner) e where "snd (diagnostics w) = None" and "tcpserver_result w port = None"
      and "getcwd_banner w = Inl e"
  | (serve) cwd where "snd (diagnostics w) = None" and "tcpserver_result w port = None"
      and "getcwd_banner w = Inr cwd"
proof (cases "snd (diagnostics w)")
  case (Some e)
  then show ?thesis by (rule diag)
next
  case d: None
  show ?thesis
  proof (cases "tcpserver_result w port")
    case (Some e)
    with d show ?thesis by (rule bind)
  next
    case t: None
    show ?thesis
    proof (cases "getcwd_banner w")
      case (Inl e)
      with d t show ?thesis by (rule banner)
    next
      case (Inr cwd)
      with d t show ?thesis by (rule serve)
    qed
  qed
qed

lemma no_serve_when_bind_fails:
  assumes "snd (diagnostics w) = None" and "tcpserver_result w port = Some e"
  shows "ServeForever \<notin> set (fst (start_server w port))"
  using diagnostics_prints [of ServeForever w] handle_exc_prints [of ServeForever e port]
  by (auto simp: start_server_bind_fails [OF assms])

lemma names_port:
  "contains (msg_port_in_use port) (str_int port)"
  "contains (msg_try_other port) (str_int (port + 1))"
proof -
  show "contains (msg_port_in_use port) (str_int port)"
    unfolding msg_port_in_use_def
    using contains_mid [of "[38169, 35823] @ ascii '': '' @ [31471, 21475] @ ascii '' ''" "str_int port"
        "ascii '' '' @ [24050, 34987, 21344, 29992]"] by simp
  show "contains (msg_try_other port) (str_int (port + 1))"
    unfolding msg_try_other_def
    using contains_mid [of "[35831, 23581, 35797, 20351, 29992, 20854, 20182, 31471, 21475, 65292, 20363, 22914] @
     ascii '': python server.py ''" "str_int (port + 1)" "[]"] by simp
qed

text \<open>
  C3. Whenever constructing the server fails with an \<open>OSError\<close> whose \<open>errno\<close> is 10048,
  the Windows code for an address in use, start_server prints a line naming the port and
  a line suggesting \<open>port + 1\<close>; for an \<open>OSError\<close> with any other \<open>errno\<close> it prints the
  general startup-error line with the error's text. In both cases it returns without
  calling \<open>serve_forever\<close>. The server is constructed once the diagnostics have come to
  their end without an exception.
\<close>

theorem start_server_bind_oserror:
  assumes "snd (diagnostics w) = None"
    and "tcpserver_result w port = Some (OSError errno text)"
  shows "start_server w port =
           (fst (diagnostics w) @ [TCPServer port] @
              (if errno = Some 10048
               then [Print (msg_port_in_use port), Print (msg_try_other port)]
               else [Print (msg_start_error text)]), Some ()) \<and>
         contains (msg_port_in_use port) (str_int port) \<and>
         contains (msg_try_other port) (str_int (port + 1)) \<and>
         ServeForever \<notin> set (fst (start_server w port))"
  using start_server_bind_fails [OF assms] no_serve_when_bind_fails [OF assms] names_port
  by (simp add: handle_exc_def)

theorem start_server_bind_oserror_witness:
  "start_server \<lparr>index_exists = True, getcwd_diag = Inr (ascii ''/srv/site''),
      os_listdir = Inr [],
      tcpserver_result = (\<lambda>p. Some (OSError (Some 10048) (ascii ''[WinError 10048]''))),
      getcwd_banner = Inr (ascii ''/srv/site''), serve_forever_result = None\<rparr> 8000
     = ([TCPServer 8000, Print (msg_port_in_use 8000), Print (msg_try_other 8000)], Some ()) \<and>
   msg_port_in_use 8000 = [38169, 35823] @ ascii '': '' @ [31471, 21475] @ ascii '' 8000 '' @
     [24050, 34987, 21344, 29992] \<and>
   msg_try_other 8000 =
     [35831, 23581, 35797, 20351, 29992, 20854, 20182, 31471, 21475, 65292, 20363, 22914] @
     ascii '': python server.py 8001''"
proof -
  let ?w = "\<lparr>index_exists = True, getcwd_diag = Inr (ascii ''/srv/site''),
      os_listdir = Inr [],
      tcpserver_result = (\<lambda>p. Some (OSError (Some 10048) (ascii ''[WinError 10048]''))),
      getcwd_banner = Inr (ascii ''/srv/site''), serve_forever_result = None\<rparr>"
  have d: "snd (diagnostics ?w) = None"
    by (simp add: diagnostics_def)
  have a: "tcpserver_result ?w 8000 = Some (OSError (Some 10048) (ascii ''[WinError 10048]''))"
    by simp
  have b: "str_int 8000 = ascii ''8000''" "str_int 8001 = ascii ''8001''"
    by (simp_all add: str_int_def digits.simps ascii_def)
  show ?thesis
    using start_server_bind_oserror [OF d a]
    by (simp add: diagnostics_def msg_port_in_use_def msg_try_other_def b ascii_def)
qed

text \<open>
  Where an occupied port is reported with another number, as on Linux with \<open>errno\<close> 98,
  the line printed names neither the port nor the next one.
\<close>

theorem in_use_errno_98_counterexample:
  "start_server linux_port_in_use 8000
     = ([TCPServer 8000, Print (msg_start_error (ascii ''[Errno 98] Address already in use''))], Some ()) \<and>
   \<not> contains (msg_start_error (ascii ''[Errno 98] Address already in use'')) (str_int 8000) \<and>
   \<not> contains (msg_start_error (ascii ''[Errno 98] Address already in use'')) (str_int 8001)"
  by (simp add: linux_port_in_use_def start_server_def diagnostics_def handle_exc_def
      msg_start_error_def str_int_def digits.simps ascii_def)

lemma start_server_returns:
  "snd (start_server w port) =
     (if snd (diagnostics w) = None \<and> tcpserver_result w port = None \<and>
         \<not> isl (getcwd_banner w) \<and> serve_forever_result w = None
      then None else Some ())"
proof (cases rule: start_server_cases [where w = w and port = port])
  case (diag e)
  then show ?thesis by (simp add: start_server_diagnostics_raise)
next
  case (bind e)
  then show ?thesis by (simp add: start_server_bind_fails)
next
  case (banner e)
  then show ?thesis by (simp add: start_server_banner_raises)
next
  case (serve cwd)
  then show ?thesis by (simp add: start_server_serves split: option.splits)
qed

lemma start_server_last:
  assumes "snd (start_server w port) = Some u"
  shows "fst (start_server w port) \<noteq> [] \<and> (\<exists>s. last (fst (start_server w port)) = Print s)"
proof (cases rule: start_server_cases [where w = w and port = port])
  case (diag e)
  then show ?thesis
    using handle_exc_last [of e port] by (simp add: start_server_diagnostics_raise)
next
  case (bind e)
  then show ?thesis
    using handle_exc_last [of e port] by (simp add: start_server_bind_fails)
next
  case (banner e)
  then show ?thesis
    using handle_exc_last [of e port] by (simp add: start_server_banner_raises)
next
  case (serve cwd)
  with assms obtain e where "serve_forever_result w = Some e"
    by (auto simp: start_server_serves split: option.splits)
  with serve show ?thesis
    using handle_exc_last [of e port] by (simp add: start_server_serves)
qed

lemma tcpserver_attempted:
  "snd (diagnostics w) = None \<Longrightarrow> TCPServer port \<in> set (fst (start_server w port))"
proof (cases rule: start_server_cases [where w = w and port = port])
  case (diag e)
  assume "snd (diagnostics w) = None"
  with diag show ?thesis by simp
next
  case (bind e)
  then show ?thesis by (simp add: start_server_bind_fails)
next
  case (banner e)
  then show ?thesis by (simp add: start_server_banner_raises)
next
  case (serve cwd)
  then show ?thesis by (simp add: start_server_serves)
qed

lemma diagnostics_first:
  assumes "e \<in> set (fst (diagnostics w))"
  shows "first_cp e \<in> {Some 35686, Some 24403, Some 30446, Some 32}"
  using assms
  by (auto simp: diagnostics_def first_cp_def msg_no_index_def msg_cwd_def msg_listing_def
      ascii_def split: if_splits sum.splits)













lemma usage_first: "first_cp (Print msg_port_not_number) = Some 38169"
  by (simp add: first_cp_def msg_port_not_number_def)

lemma usage_not_in_diagnostics: "Print msg_port_not_number \<notin> set (fst (diagnostics w))"
  using diagnostics_first [of "Print msg_port_not_number" w] usage_first by auto

lemma usage_not_in_handle_exc: "Print msg_port_not_number \<notin> set (handle_exc e port)"
  by (simp add: handle_exc_def msg_port_not_number_def msg_stopped_def msg_port_in_use_def
      msg_try_other_def msg_start_error_def msg_unknown_error_def ascii_def split: exc.splits)

lemma usage_not_in_banner:
  "Print msg_port_not_number \<noteq> Print msg_started"
  "Print msg_port_not_number \<noteq> Print (msg_address @ s)"
  "Print msg_port_not_number \<noteq> Print (msg_directory @ s)"
  "Print msg_port_not_number \<noteq> Print msg_how_to_stop"
  by (simp_all add: msg_port_not_number_def msg_started_def msg_address_def msg_directory_def
      msg_how_to_stop_def ascii_def)

lemma usage_not_printed: "Print msg_port_not_number \<notin> set (fst (start_server w port))"
proof (cases rule: start_server_cases [where w = w and port = port])
  case (diag e)
  then show ?thesis
    using usage_not_in_diagnostics [of w] usage_not_in_handle_exc [of e port]
    by (simp add: start_server_diagnostics_raise)
next
  case (bind e)
  then show ?thesis
    using usage_not_in_diagnostics [of w] usage_not_in_handle_exc [of e port]
    by (simp add: start_server_bind_fails)
next
  case (banner e)
  then show ?thesis
    using usage_not_in_diagnostics [of w] usage_not_in_handle_exc [of e port]
      usage_not_in_banner(1) usage_not_in_banner(2) [of "str_int port"]
    by (simp add: start_server_banner_raises)
next
  case (serve cwd)
  show ?thesis
  proof (cases "serve_forever_result w")
    case None
    with serve show ?thesis
      using usage_not_in_diagnostics [of w] usage_not_in_banner(1,4)
        usage_not_in_banner(2) [of "str_int port"] usage_not_in_banner(3) [of cwd]
      by (simp add: start_server_serves)
  next
    case (Some e)
    with serve show ?thesis
      using usage_not_in_diagnostics [of w] usage_not_in_handle_exc [of e port]
        usage_not_in_banner(1,4)
        usage_not_in_banner(2) [of "str_int port"] usage_not_in_banner(3) [of cwd]
      by (simp add: start_server_serves)
  qed
qed

section \<open>Properties of the command line\<close>

lemma main_invalid:
  "parse_port i argv = None \<Longrightarrow> main i w argv = ([Print msg_port_not_number], Some 1)"
  by (simp add: main_def)

lemma main_valid:
  "parse_port i argv = Some port \<Longrightarrow>
     main i w argv = (fst (start_server w port), map_option (\<lambda>_. 0) (snd (start_server w port)))"
  by (simp add: main_def split: prod.splits)

lemma str_8080: "int_ascii (ascii ''8080'') = Some 8080"
  by (simp add: int_ascii_def strip_def is_space_def is_digit_def ascii_def)

lemma str_abc: "int_ascii (ascii ''abc'') = None"
  by (simp add: int_ascii_def strip_def is_space_def is_digit_def ascii_def)

lemma str_70000: "int_ascii (ascii ''70000'') = Some 70000"
  by (simp add: int_ascii_def strip_def is_space_def is_digit_def ascii_def)

text \<open>
  C4. The exit status is 1 exactly when the port argument is not accepted by \<open>int\<close>. With
  a port, the process exits with status 0 whenever start_server returns, which it does
  after an interrupt and also after a failure to bind or any other startup error it
  caught; it never exits only if nothing raised before \<open>serve_forever\<close> and
  \<open>serve_forever\<close> never ends. Whenever the process exits, the last thing it did was to
  print a message.
\<close>

theorem main_exit_status:
  "(parse_port i argv = None \<longrightarrow> main i w argv = ([Print msg_port_not_number], Some 1)) \<and>
   (\<forall>port. parse_port i argv = Some port \<longrightarrow>
      snd (main i w argv) =
        (if snd (diagnostics w) = None \<and> tcpserver_result w port = None \<and>
            \<not> isl (getcwd_banner w) \<and> serve_forever_result w = None
         then None else Some 0)) \<and>
   (\<forall>c. snd (main i w argv) = Some c \<longrightarrow>
      fst (main i w argv) \<noteq> [] \<and> (\<exists>s. last (fst (main i w argv)) = Print s))"
proof (intro conjI allI impI)
  assume "parse_port i argv = None"
  then show "main i w argv = ([Print msg_port_not_number], Some 1)"
    by (rule main_invalid)
next
  fix port
  assume "parse_port i argv = Some port"
  then show "snd (main i w argv) =
        (if snd (diagnostics w) = None \<and> tcpserver_result w port = None \<and>
            \<not> isl (getcwd_banner w) \<and> serve_forever_result w = None
         then None else Some 0)"
    by (simp add: main_valid start_server_returns)
next
  fix c
  assume c: "snd (main i w argv) = Some c"
  show "fst (main i w argv) \<noteq> []"
  proof (cases "parse_port i argv")
    case None
    then show ?thesis by (simp add: main_invalid)
  next
    case (Some port)
    with c obtain u where "snd (start_server w port) = Some u"
      by (auto simp: main_valid)
    from start_server_last [OF this] Some show ?thesis
      by (simp add: main_valid)
  qed
next
  fix c
  assume c: "snd (main i w argv) = Some c"
  show "\<exists>s. last (fst (main i w argv)) = Print s"
  proof (cases "parse_port i argv")
    case None
    then show ?thesis by (simp add: main_invalid)
  next
    case (Some port)
    with c obtain u where "snd (start_server w port) = Some u"
      by (auto simp: main_valid)
    from start_server_last [OF this] Some show ?thesis
      by (simp add: main_valid)
  qed
qed

theorem main_exit_status_witness:
  "main int_ascii
     \<lparr>index_exists = True, getcwd_diag = Inr (ascii ''/srv/site''), os_listdir = Inr [],
      tcpserver_result = (\<lambda>p. None), getcwd_banner = Inr (ascii ''/srv/site''),
      serve_forever_result = Some KeyboardInterrupt\<rparr>
     [ascii ''server.py'', ascii ''8080'']
   = ([TCPServer 8080, Print msg_started, Print (msg_address @ ascii ''8080''),
       Print (msg_directory @ ascii ''/srv/site''), Print msg_how_to_stop, ServeForever,
       ServerClose, Print msg_stopped], Some 0) \<and>
   main int_ascii
     \<lparr>index_exists = True, getcwd_diag = Inr (ascii ''/srv/site''), os_listdir = Inr [],
      tcpserver_result = (\<lambda>p. None), getcwd_banner = Inr (ascii ''/srv/site''),
      serve_forever_result = Some KeyboardInterrupt\<rparr>
     [ascii ''server.py'', ascii ''abc'']
   = ([Print msg_port_not_number], Some 1)"
proof -
  have a: "parse_port int_ascii [ascii ''server.py'', ascii ''8080''] = Some 8080"
    by (simp add: parse_port_def str_8080)
  have b: "parse_port int_ascii [ascii ''server.py'', ascii ''abc''] = None"
    by (simp add: parse_port_def str_abc)
  have c: "str_int 8080 = ascii ''8080''"
    by (simp add: str_int_def digits.simps ascii_def)
  show ?thesis
    using main_exit_status [of int_ascii "[ascii ''server.py'', ascii ''8080'']"
        "\<lparr>index_exists = True, getcwd_diag = Inr (ascii ''/srv/site''), os_listdir = Inr [],
      tcpserver_result = (\<lambda>p. None), getcwd_banner = Inr (ascii ''/srv/site''),
      serve_forever_result = Some KeyboardInterrupt\<rparr>"]
      main_exit_status [of int_ascii "[ascii ''server.py'', ascii ''abc'']"
        "\<lparr>index_exists = True, getcwd_diag = Inr (ascii ''/srv/site''), os_listdir = Inr [],
      tcpserver_result = (\<lambda>p. None), getcwd_banner = Inr (ascii ''/srv/site''),
      serve_forever_result = Some KeyboardInterrupt\<rparr>"]
      a b
    by (simp add: main_def start_server_def diagnostics_def handle_exc_def c)
qed

text \<open>A port that cannot be bound: the message is printed and the exit status is 0.\<close>

theorem bind_failure_exit_0_counterexample:
  "main int_ascii
     linux_port_in_use
     [ascii ''server.py'', ascii ''8080'']
   = ([TCPServer 8080, Print (msg_start_error (ascii ''[Errno 98] Address already in use''))],
      Some 0)"
  by (simp add: linux_port_in_use_def main_def parse_port_def str_8080 start_server_def
      diagnostics_def handle_exc_def)

text \<open>
  C5. For every command-line port argument that \<open>int\<close> rejects, the process prints the
  message that the port must be a number and exits with status 1, having done nothing
  else: no server is constructed, so no socket is bound.
\<close>

theorem main_non_numeric:
  assumes "1 < length argv" and "int_of_str (argv ! 1) = None"
  shows "main int_of_str w argv = ([Print msg_port_not_number], Some 1) \<and>
         (\<forall>p. TCPServer p \<notin> set (fst (main int_of_str w argv)))"
  using assms by (simp add: main_def parse_port_def)

theorem main_non_numeric_witness:
  "main int_ascii
     \<lparr>index_exists = False, getcwd_diag = Inr (ascii ''/srv/site''),
      os_listdir = Inr [ascii ''app.js''], tcpserver_result = (\<lambda>p. None),
      getcwd_banner = Inr (ascii ''/srv/site''),
      serve_forever_result = Some KeyboardInterrupt\<rparr>
     [ascii ''server.py'', ascii ''abc'']
   = ([Print msg_port_not_number], Some 1)"
proof -
  have a: "1 < length [ascii ''server.py'', ascii ''abc'']" by simp
  have b: "int_ascii ([ascii ''server.py'', ascii ''abc''] ! 1) = None"
    by (simp add: str_abc)
  show ?thesis
    using main_non_numeric [where argv = "[ascii ''server.py'', ascii ''abc'']"
        and int_of_str = int_ascii, OF a b]
    by simp
qed

text \<open>
  C6. An integer port argument is not checked against the range of TCP ports: whatever
  integer \<open>int\<close> returns, in the range or not, the process runs start_server with it.
  Once the diagnostics have come to their end, start_server constructs the server on
  that port; if the construction raises, the exception is caught and reported by a
  printed line and the process exits with status 0. The usage message is never
  printed, and the exit status is never 1.
\<close>

theorem main_integer_port_unchecked:
  assumes "1 < length argv" and "int_of_str (argv ! 1) = Some port"
  shows "fst (main int_of_str w argv) = fst (start_server w port) \<and>
         (snd (diagnostics w) = None \<longrightarrow> TCPServer port \<in> set (fst (main int_of_str w argv))) \<and>
         (\<forall>e. snd (diagnostics w) = None \<and> tcpserver_result w port = Some e \<longrightarrow>
            main int_of_str w argv =
              (fst (diagnostics w) @ [TCPServer port] @ handle_exc e port, Some 0) \<and>
            handle_exc e port \<noteq> [] \<and> (\<exists>s. last (handle_exc e port) = Print s)) \<and>
         Print msg_port_not_number \<notin> set (fst (main int_of_str w argv)) \<and>
         (snd (main int_of_str w argv) = None \<or> snd (main int_of_str w argv) = Some 0)"
proof -
  from assms have p: "parse_port int_of_str argv = Some port"
    by (simp add: parse_port_def)
  have "fst (main int_of_str w argv) = fst (start_server w port)"
    by (simp add: main_valid [OF p])
  moreover have "snd (diagnostics w) = None \<longrightarrow>
      TCPServer port \<in> set (fst (main int_of_str w argv))"
    by (simp add: main_valid [OF p] tcpserver_attempted)
  moreover have "\<forall>e. snd (diagnostics w) = None \<and> tcpserver_result w port = Some e \<longrightarrow>
            main int_of_str w argv =
              (fst (diagnostics w) @ [TCPServer port] @ handle_exc e port, Some 0) \<and>
            handle_exc e port \<noteq> [] \<and> (\<exists>s. last (handle_exc e port) = Print s)"
    using handle_exc_last by (simp add: main_valid [OF p] start_server_bind_fails)
  moreover have "Print msg_port_not_number \<notin> set (fst (main int_of_str w argv))"
    by (simp add: main_valid [OF p] usage_not_printed)
  moreover have "snd (main int_of_str w argv) = None \<or> snd (main int_of_str w argv) = Some 0"
    by (simp add: main_valid [OF p] start_server_returns)
  ultimately show ?thesis by blast
qed

theorem main_integer_port_unchecked_witness:
  "main int_ascii ports_out_of_range [ascii ''server.py'', ascii ''70000'']
   = ([TCPServer 70000, Print (msg_unknown_error (ascii ''bind(): port must be 0-65535.''))],
      Some 0) \<and>
   Print msg_port_not_number \<notin>
     set (fst (main int_ascii ports_out_of_range [ascii ''server.py'', ascii ''70000'']))"
proof -
  have a: "1 < length [ascii ''server.py'', ascii ''70000'']" by simp
  have b: "int_ascii ([ascii ''server.py'', ascii ''70000''] ! 1) = Some 70000"
    by (simp add: str_70000)
  have d: "snd (diagnostics ports_out_of_range) = None"
    by (simp add: ports_out_of_range_def diagnostics_def)
  have t: "tcpserver_result ports_out_of_range 70000 =
      Some (OtherException (ascii ''bind(): port must be 0-65535.''))"
    by (simp add: ports_out_of_range_def)
  have f: "fst (diagnostics ports_out_of_range) = []"
    by (simp add: ports_out_of_range_def diagnostics_def)
  show ?thesis
    using main_integer_port_unchecked [where argv = "[ascii ''server.py'', ascii ''70000'']"
        and int_of_str = int_ascii, OF a b, of ports_out_of_range] d t f
    by (simp add: handle_exc_def msg_port_not_number_def msg_unknown_error_def ascii_def)
qed

text \<open>
  Port 70000: the server is constructed with it, the error raised by the bind is
  reported as an unknown error, and the exit status is 0.
\<close>

theorem port_out_of_range_counterexample:
  "main int_ascii
     ports_out_of_range
     [ascii ''server.py'', ascii ''70000'']
   = ([TCPServer 70000, Print (msg_unknown_error (ascii ''bind(): port must be 0-65535.''))],
      Some 0)"
  by (simp add: ports_out_of_range_def main_def parse_port_def str_70000 start_server_def
      diagnostics_def handle_exc_def)

end
